theory Spec2Isabelle
  imports Main "HOL-Library.Sublist"
begin

section \<open>The deployment trigger of frontend/deploy.py\<close>

text \<open>
  The script changes the working directory, starts the deploy tool as a child process,
  writes two blank lines to its standard input, echoes its combined output, waits for it
  and turns its return code into the exit status of the program.

  Everything the script does is an effect on the outside world, so the model is a
  function of a \<open>world\<close>: the record of what each call into the operating system does
  in one run. The function returns the trace of the effects that were completed, in
  order, together with how the call ended.

  What the model takes from the Python runtime:
  \<^item> a string is the list of its Unicode code points;
  \<^item> every call on the pipes of the child may raise, and so may the two calls of
    \<open>print\<close> in the loop over the output, which are inside the \<open>try\<close> block; what
    they raise is an instance of \<open>Exception\<close>, identified with the text \<open>str(e)\<close> that
    the handler prints;
  \<^item> the opening \<open>print\<close>, the \<open>print\<close> of the handler and \<open>process.wait()\<close> do not
    raise;
  \<^item> the iteration over the output yields finitely many lines; the read after the last
    of them finds the end of the stream, raises, or blocks for ever (the pipe is held
    open, by the child or by a process the child started);
  \<^item> a child that never ends makes \<open>process.wait()\<close> block for ever.
\<close>

subsection \<open>Python's string operations\<close>

type_synonym pystr = "nat list"

text \<open>An ASCII literal of the source, as code points.\<close>

definition py :: "string \<Rightarrow> pystr" where
  "py s = map of_char s"

definition newline :: pystr where
  "newline = [0x0A]"

text \<open>
  \<open>str.lower\<close>, as far as the test of the loop can see it: the letters A to Z move to a
  to z and a code point above 127 is kept. Python lowers other letters too, to text
  outside ASCII, with two exceptions: U+212A becomes \<open>k\<close>, and U+0130 becomes \<open>i\<close>
  followed by U+0307. The markers of the test are ASCII, hold no \<open>k\<close>, and their only
  \<open>i\<close> is followed by \<open>f\<close>, so the test gives the same answer on both.
\<close>

definition lower_char :: "nat \<Rightarrow> nat" where
  "lower_char c = (if 65 \<le> c \<and> c \<le> 90 then c + 32 else c)"

definition lower :: "pystr \<Rightarrow> pystr" where
  "lower s = map lower_char s"

text \<open>\<open>needle in haystack\<close> on strings: the needle occurs as a contiguous block.\<close>

fun str_contains :: "pystr \<Rightarrow> pystr \<Rightarrow> bool" where
  "str_contains needle [] = (needle = [])"
| "str_contains needle (c # cs) = (prefix needle (c # cs) \<or> str_contains needle cs)"

text \<open>
  \<open>str.strip()\<close>: whitespace is removed at both ends. The whitespace of Python is the
  set of code points below: the ASCII controls 9 to 13 and 28 to 31, the space, U+0085,
  U+00A0, U+1680, U+2000 to U+200A, U+2028, U+2029, U+202F, U+205F and U+3000.
\<close>

definition isspace :: "nat \<Rightarrow> bool" where
  "isspace c \<longleftrightarrow>
     (0x09 \<le> c \<and> c \<le> 0x0D) \<or> (0x1C \<le> c \<and> c \<le> 0x20) \<or> c = 0x85 \<or> c = 0xA0 \<or>
     c = 0x1680 \<or> (0x2000 \<le> c \<and> c \<le> 0x200A) \<or> c = 0x2028 \<or> c = 0x2029 \<or>
     c = 0x202F \<or> c = 0x205F \<or> c = 0x3000"

definition strip :: "pystr \<Rightarrow> pystr" where
  "strip s = rev (dropWhile isspace (rev (dropWhile isspace s)))"

subsection \<open>Effects, worlds and outcomes\<close>

type_synonym exn = pystr

text \<open>
  \<open>Print text end\<close> is \<open>print(text, end=end)\<close>. \<open>Popen\<close> is the start of the child with
  both pipes open and its error stream merged into its output. \<open>StdoutLine\<close> is one
  line taken from the child's output, \<open>Wait\<close> the return of \<open>process.wait()\<close>.
\<close>

datatype event =
    Print pystr pystr
  | Chdir pystr
  | Popen "pystr list"
  | StdinWrite pystr
  | StdinFlush
  | StdoutLine pystr
  | Wait

text \<open>
  An error field that is \<open>Some e\<close> makes the call raise \<open>e\<close>. The writes and flushes
  are numbered from 0 in the order of the loop over the inputs. \<open>stdout_lines\<close> are the
  lines that the iteration over the output yields, numbered from 0: \<open>echo_error w k\<close>
  is what the \<open>print\<close> that echoes line \<open>k\<close> raises, \<open>confirm_error w k\<close> what the
  \<open>print\<close> of the confirmation of line \<open>k\<close> raises. \<open>stdout_error\<close> is what the read
  after the last line raises; when it raises nothing, \<open>stdout_eof\<close> tells whether
  that read finds the end of the stream, or blocks for ever. \<open>returncode\<close> is the code
  the child ends with, \<open>None\<close> when it never ends.
\<close>

record world =
  chdir_error :: "exn option"
  popen_error :: "exn option"
  stdin_write_error :: "nat \<rightharpoonup> exn"
  stdin_flush_error :: "nat \<rightharpoonup> exn"
  stdout_lines :: "pystr list"
  echo_error :: "nat \<rightharpoonup> exn"
  confirm_error :: "nat \<rightharpoonup> exn"
  stdout_error :: "exn option"
  stdout_eof :: bool
  returncode :: "int option"

datatype call_result = Returned bool | Raised exn | Blocked

datatype exit_status = Exit int | Traceback exn | Hang

subsection \<open>The script\<close>

text \<open>The path is written with the separator \<open>0x5C\<close>, the backslash of the source.\<close>

definition frontend_dir :: pystr where
  "frontend_dir =
     py ''C:'' @ [0x5C] @ py ''Users'' @ [0x5C] @ py ''prate'' @ [0x5C] @ py ''linera'' @
     [0x5C] @ py ''linera-poker'' @ [0x5C] @ py ''frontend''"

definition cmd :: "pystr list" where
  "cmd = [py ''npx'', py ''netlify-cli'', py ''deploy'', py ''--prod'', py ''--dir=dist'']"

definition inputs :: "pystr list" where
  "inputs = [py '''', py '''']"

text \<open>
  The text of the confirmation is an f-string: a fixed part (a newline, the check mark
  U+2705 and \<open>Found URL:\<close>), then the stripped line.
\<close>

definition found_prefix :: pystr where
  "found_prefix = newline @ [0x2705] @ py '' Found URL: ''"

definition found_url :: "pystr \<Rightarrow> pystr" where
  "found_url line = found_prefix @ strip line"

definition is_url_line :: "pystr \<Rightarrow> bool" where
  "is_url_line line \<longleftrightarrow>
     str_contains (py ''https://'') (lower line) \<and> str_contains (py ''netlify'') (lower line)"

text \<open>The loop over \<open>inputs\<close>: write, then flush; the first call that raises ends it.\<close>

fun send_inputs :: "world \<Rightarrow> nat \<Rightarrow> pystr list \<Rightarrow> event list \<Rightarrow> event list \<times> exn option" where
  "send_inputs w k [] tr = (tr, None)"
| "send_inputs w k (inp # rest) tr =
     (case stdin_write_error w k of
        Some e \<Rightarrow> (tr, Some e)
      | None \<Rightarrow>
          (case stdin_flush_error w k of
             Some e \<Rightarrow> (tr @ [StdinWrite (inp @ newline)], Some e)
           | None \<Rightarrow>
               send_inputs w (Suc k) rest (tr @ [StdinWrite (inp @ newline), StdinFlush])))"

text \<open>
  The loop over the lines of the child's output: echo the line, then print the
  confirmation if the line passes the test. A \<open>print\<close> that raises ends the loop.
\<close>

fun read_output :: "world \<Rightarrow> nat \<Rightarrow> pystr list \<Rightarrow> event list \<Rightarrow> event list \<times> exn option" where
  "read_output w k [] tr = (tr, None)"
| "read_output w k (line # rest) tr =
     (case echo_error w k of
        Some e \<Rightarrow> (tr @ [StdoutLine line], Some e)
      | None \<Rightarrow>
          (let tr1 = tr @ [StdoutLine line, Print line (py '''')] in
           if is_url_line line then
             (case confirm_error w k of
                Some e \<Rightarrow> (tr1, Some e)
              | None \<Rightarrow> read_output w (Suc k) rest (tr1 @ [Print (found_url line) newline]))
           else read_output w (Suc k) rest tr1))"

text \<open>
  The body of the \<open>try\<close> block. \<open>Inl e\<close> is the exception that leaves it, \<open>Inr None\<close>
  a call that never returns.
\<close>

definition try_body :: "world \<Rightarrow> event list \<Rightarrow> event list \<times> (exn + bool option)" where
  "try_body w tr =
     (case popen_error w of
        Some e \<Rightarrow> (tr, Inl e)
      | None \<Rightarrow>
          (case send_inputs w 0 inputs (tr @ [Popen cmd]) of
             (tr2, Some e) \<Rightarrow> (tr2, Inl e)
           | (tr2, None) \<Rightarrow>
               (case read_output w 0 (stdout_lines w) tr2 of
                  (tr3, Some e) \<Rightarrow> (tr3, Inl e)
                | (tr3, None) \<Rightarrow>
                    (case stdout_error w of
                       Some e \<Rightarrow> (tr3, Inl e)
                     | None \<Rightarrow>
                         if \<not> stdout_eof w then (tr3, Inr None)
                         else
                           (case returncode w of
                              None \<Rightarrow> (tr3, Inr None)
                            | Some rc \<Rightarrow> (tr3 @ [Wait], Inr (Some (rc = 0))))))))"

definition deploy_to_netlify :: "world \<Rightarrow> event list \<times> call_result" where
  "deploy_to_netlify w =
     (let tr0 = [Print (py ''Deploying to Netlify...'') newline] in
      case chdir_error w of
        Some e \<Rightarrow> (tr0, Raised e)
      | None \<Rightarrow>
          (case try_body w (tr0 @ [Chdir frontend_dir]) of
             (tr, Inl e) \<Rightarrow> (tr @ [Print (py ''Error: '' @ e) newline], Returned False)
           | (tr, Inr None) \<Rightarrow> (tr, Blocked)
           | (tr, Inr (Some ok)) \<Rightarrow> (tr, Returned ok)))"

text \<open>The \<open>__main__\<close> block: \<open>sys.exit(0 if success else 1)\<close>.\<close>

definition main :: "world \<Rightarrow> event list \<times> exit_status" where
  "main w =
     (case deploy_to_netlify w of
        (tr, Returned success) \<Rightarrow> (tr, Exit (if success then 0 else 1))
      | (tr, Raised e) \<Rightarrow> (tr, Traceback e)
      | (tr, Blocked) \<Rightarrow> (tr, Hang))"

subsection \<open>Vocabulary of the properties\<close>

text \<open>The child is started: neither the change of directory nor \<open>Popen\<close> raises.\<close>

definition spawned :: "world \<Rightarrow> bool" where
  "spawned w \<longleftrightarrow> chdir_error w = None \<and> popen_error w = None"

text \<open>None of the two writes and two flushes raises.\<close>

definition stdin_ok :: "world \<Rightarrow> bool" where
  "stdin_ok w \<longleftrightarrow>
     stdin_write_error w 0 = None \<and> stdin_flush_error w 0 = None \<and>
     stdin_write_error w 1 = None \<and> stdin_flush_error w 1 = None"

text \<open>
  No \<open>print\<close> of the loop raises: not the echo of a line, and not the confirmation of a
  line that passes the test. The lines are numbered from \<open>k\<close>.
\<close>

fun prints_ok :: "world \<Rightarrow> nat \<Rightarrow> pystr list \<Rightarrow> bool" where
  "prints_ok w k [] = True"
| "prints_ok w k (line # rest) =
     (echo_error w k = None \<and> (is_url_line line \<longrightarrow> confirm_error w k = None) \<and>
      prints_ok w (Suc k) rest)"

definition loop_ok :: "world \<Rightarrow> bool" where
  "loop_ok w \<longleftrightarrow> prints_ok w 0 (stdout_lines w)"

definition header :: "event list" where
  "header = [Print (py ''Deploying to Netlify...'') newline, Chdir frontend_dir, Popen cmd]"

definition two_blank_lines :: "event list" where
  "two_blank_lines = [StdinWrite newline, StdinFlush, StdinWrite newline, StdinFlush]"

definition line_events :: "pystr \<Rightarrow> event list" where
  "line_events line =
     [StdoutLine line, Print line (py '''')] @
     (if is_url_line line then [Print (found_url line) newline] else [])"

text \<open>How a run ends in which the loop over the output is not interrupted.\<close>

definition trailer :: "world \<Rightarrow> event list" where
  "trailer w =
     (case stdout_error w of
        Some e \<Rightarrow> [Print (py ''Error: '' @ e) newline]
      | None \<Rightarrow>
          if \<not> stdout_eof w then []
          else (case returncode w of None \<Rightarrow> [] | Some rc \<Rightarrow> [Wait]))"

definition verdict :: "world \<Rightarrow> call_result" where
  "verdict w =
     (case stdout_error w of
        Some e \<Rightarrow> Returned False
      | None \<Rightarrow>
          if \<not> stdout_eof w then Blocked
          else (case returncode w of None \<Rightarrow> Blocked | Some rc \<Rightarrow> Returned (rc = 0)))"

text \<open>The order of the effects on the child in a run that nothing interrupts.\<close>

definition linear_order :: "world \<Rightarrow> event list" where
  "linear_order w =
     [Popen cmd, StdinWrite newline, StdinFlush, StdinWrite newline, StdinFlush] @
     map StdoutLine (stdout_lines w) @ [Wait]"

text \<open>Kinds of effects, to select them from a trace.\<close>

fun is_stdin_write :: "event \<Rightarrow> bool" where
  "is_stdin_write (StdinWrite s) = True"
| "is_stdin_write _ = False"

fun is_child_event :: "event \<Rightarrow> bool" where
  "is_child_event (Print t e) = False"
| "is_child_event (Chdir d) = False"
| "is_child_event _ = True"

text \<open>An echoed line is printed with an empty \<open>end\<close>, everything else with a newline.\<close>

fun is_echo :: "event \<Rightarrow> bool" where
  "is_echo (Print t e) = (e = [])"
| "is_echo _ = False"

fun is_confirmation :: "event \<Rightarrow> bool" where
  "is_confirmation (Print t e) = (prefix found_prefix t \<and> e = newline)"
| "is_confirmation _ = False"


subsection \<open>Sample runs\<close>

definition progress_line :: pystr where
  "progress_line = py ''Uploading 12 files'' @ newline"

definition https_line :: pystr where
  "https_line = py ''Website URL: HTTPS://linera-poker.Netlify.app'' @ newline"

definition http_line :: pystr where
  "http_line = py ''Website URL: http://linera-poker.netlify.app'' @ newline"


text \<open>Nothing raises, the output ends and the child ends with code 0.\<close>

definition calm_world :: world where
  "calm_world =
     \<lparr>chdir_error = None, popen_error = None,
      stdin_write_error = Map.empty, stdin_flush_error = Map.empty,
      stdout_lines = [progress_line, https_line, http_line, https_line],
      echo_error = Map.empty, confirm_error = Map.empty,
      stdout_error = None, stdout_eof = True, returncode = Some 0\<rparr>"

text \<open>The child ends with code 2.\<close>

definition failing_world :: world where
  "failing_world = calm_world\<lparr>returncode := Some 2\<rparr>"

text \<open>The directory does not exist.\<close>

definition no_dir_world :: world where
  "no_dir_world = calm_world\<lparr>chdir_error := Some (py ''[WinError 3] path not found'')\<rparr>"

text \<open>The tool is not installed.\<close>

definition no_tool_world :: world where
  "no_tool_world = calm_world\<lparr>popen_error := Some (py ''[WinError 2] file not found'')\<rparr>"

text \<open>
  The child reads the first blank line and ends with code 0 without asking again: the
  second write finds the pipe closed.
\<close>

definition broken_pipe_world :: world where
  "broken_pipe_world =
     calm_world\<lparr>stdin_write_error := [1 \<mapsto> py ''[Errno 32] Broken pipe'']\<rparr>"

text \<open>A byte of the output cannot be decoded; the child ends with code 0.\<close>

definition decode_error_world :: world where
  "decode_error_world =
     calm_world\<lparr>stdout_error := Some (py ''charmap codec cannot decode byte 0x9d'')\<rparr>"

text \<open>
  The console cannot encode the check mark: the first confirmation, that of line 1,
  raises. The child ends with code 0.
\<close>

definition encode_error_world :: world where
  "encode_error_world =
     calm_world\<lparr>confirm_error := [1 \<mapsto> py ''charmap codec cannot encode character'']\<rparr>"

text \<open>The same console and the same child, whose output holds no address to confirm.\<close>

definition plain_world :: world where
  "plain_world = encode_error_world\<lparr>stdout_lines := [progress_line, http_line]\<rparr>"


text \<open>A single line of output without an address; nothing raises.\<close>

definition quiet_world :: world where
  "quiet_world = calm_world\<lparr>stdout_lines := [progress_line]\<rparr>"

section \<open>Closed forms\<close>

text \<open>
  The loop over the two inputs appends two writes and two flushes unless one of them
  raises. The loop over the output appends, for each line, the events of that line,
  unless a \<open>print\<close> raises; then it stops inside the events of some line.
\<close>

lemma send_inputs_ok:
  "stdin_ok w \<Longrightarrow> send_inputs w 0 inputs tr = (tr @ two_blank_lines, None)"
  by (simp add: inputs_def stdin_ok_def two_blank_lines_def py_def)

lemma send_inputs_shape:
  obtains pre r where "send_inputs w 0 inputs tr = (tr @ pre, r)"
    and "prefix pre two_blank_lines" and "r = None \<longleftrightarrow> stdin_ok w"
proof (cases "stdin_write_error w 0")
  case (Some e)
  then have "send_inputs w 0 inputs tr = (tr @ [], Some e)"
    by (simp add: inputs_def)
  moreover have "Some e = None \<longleftrightarrow> stdin_ok w"
    using Some by (simp add: stdin_ok_def)
  ultimately show ?thesis using that [of "[]" "Some e"] by simp
next
  case w0: None
  show ?thesis
  proof (cases "stdin_flush_error w 0")
    case (Some e)
    with w0 have "send_inputs w 0 inputs tr = (tr @ [StdinWrite newline], Some e)"
      by (simp add: inputs_def py_def)
    moreover have "Some e = None \<longleftrightarrow> stdin_ok w"
      using Some by (simp add: stdin_ok_def)
    ultimately show ?thesis
      using that [of "[StdinWrite newline]" "Some e"] by (simp add: two_blank_lines_def)
  next
    case f0: None
    show ?thesis
    proof (cases "stdin_write_error w 1")
      case (Some e)
      with w0 f0 have "send_inputs w 0 inputs tr = (tr @ [StdinWrite newline, StdinFlush], Some e)"
        by (simp add: inputs_def py_def)
      moreover have "Some e = None \<longleftrightarrow> stdin_ok w"
        using Some by (simp add: stdin_ok_def)
      ultimately show ?thesis
        using that [of "[StdinWrite newline, StdinFlush]" "Some e"]
        by (simp add: two_blank_lines_def)
    next
      case w1: None
      show ?thesis
      proof (cases "stdin_flush_error w 1")
        case (Some e)
        with w0 f0 w1 have "send_inputs w 0 inputs tr =
            (tr @ [StdinWrite newline, StdinFlush, StdinWrite newline], Some e)"
          by (simp add: inputs_def py_def)
        moreover have "Some e = None \<longleftrightarrow> stdin_ok w"
          using Some by (simp add: stdin_ok_def)
        ultimately show ?thesis
          using that [of "[StdinWrite newline, StdinFlush, StdinWrite newline]" "Some e"]
          by (simp add: two_blank_lines_def)
      next
        case None
        with w0 f0 w1 have ok: "stdin_ok w" by (simp add: stdin_ok_def)
        then show ?thesis
          using that [of two_blank_lines None] by (simp add: send_inputs_ok)
      qed
    qed
  qed
qed

lemma read_output_ok:
  "prints_ok w k ls \<Longrightarrow> read_output w k ls tr = (tr @ concat (map line_events ls), None)"
  by (induction ls arbitrary: k tr) (simp_all add: Let_def line_events_def)

lemma read_output_raises:
  "\<not> prints_ok w k ls \<Longrightarrow>
     \<exists>pre e. read_output w k ls tr = (tr @ pre, Some e) \<and>
             prefix pre (concat (map line_events ls))"
proof (induction ls arbitrary: k tr)
  case Nil
  then show ?case by simp
next
  case (Cons l ls)
  show ?case
  proof (cases "echo_error w k")
    case (Some e)
    then have "read_output w k (l # ls) tr = (tr @ [StdoutLine l], Some e)" by simp
    moreover have "prefix [StdoutLine l] (concat (map line_events (l # ls)))"
      by (simp add: line_events_def)
    ultimately show ?thesis by blast
  next
    case echo: None
    show ?thesis
    proof (cases "is_url_line l \<and> confirm_error w k \<noteq> None")
      case True
      then obtain e where e: "confirm_error w k = Some e" by auto
      with echo True have "read_output w k (l # ls) tr =
          (tr @ [StdoutLine l, Print l (py '''')], Some e)"
        by (simp add: Let_def)
      moreover have "prefix [StdoutLine l, Print l (py '''')] (concat (map line_events (l # ls)))"
        by (simp add: line_events_def)
      ultimately show ?thesis by blast
    next
      case False
      with echo Cons.prems have rest: "\<not> prints_ok w (Suc k) ls" by auto
      from echo False have step: "read_output w k (l # ls) tr =
          read_output w (Suc k) ls (tr @ line_events l)"
        by (auto simp add: Let_def line_events_def)
      from Cons.IH [OF rest, of "tr @ line_events l"]
      obtain pre e where p: "read_output w (Suc k) ls (tr @ line_events l) =
            ((tr @ line_events l) @ pre, Some e)"
        and q: "prefix pre (concat (map line_events ls))"
        by blast
      from step p have "read_output w k (l # ls) tr = (tr @ (line_events l @ pre), Some e)"
        by simp
      moreover from q have "prefix (line_events l @ pre) (concat (map line_events (l # ls)))"
        by simp
      ultimately show ?thesis by blast
    qed
  qed
qed

lemma deploy_closed:
  assumes "spawned w" and "stdin_ok w" and "loop_ok w"
  shows "deploy_to_netlify w =
           (header @ two_blank_lines @ concat (map line_events (stdout_lines w)) @ trailer w,
            verdict w)"
proof -
  from assms(1) have c: "chdir_error w = None" and p: "popen_error w = None"
    by (simp_all add: spawned_def)
  from assms(3) have r: "read_output w 0 (stdout_lines w) tr =
      (tr @ concat (map line_events (stdout_lines w)), None)" for tr
    by (simp add: loop_ok_def read_output_ok)
  show ?thesis
    by (simp add: deploy_to_netlify_def try_body_def c p send_inputs_ok [OF assms(2)] r
          header_def trailer_def verdict_def split: option.splits)
qed

lemma deploy_stdin_raises:
  assumes "spawned w" and "\<not> stdin_ok w"
  obtains pre e where "prefix pre two_blank_lines"
    and "deploy_to_netlify w =
           (header @ pre @ [Print (py ''Error: '' @ e) newline], Returned False)"
proof -
  let ?tr = "[Print (py ''Deploying to Netlify...'') newline] @ [Chdir frontend_dir]"
  obtain pre r where s: "send_inputs w 0 inputs (?tr @ [Popen cmd]) = ((?tr @ [Popen cmd]) @ pre, r)"
    and p: "prefix pre two_blank_lines" and r: "r = None \<longleftrightarrow> stdin_ok w"
    by (rule send_inputs_shape)
  from r assms(2) obtain e where e: "r = Some e" by (cases r) auto
  from assms(1) have "chdir_error w = None" "popen_error w = None"
    by (simp_all add: spawned_def)
  with s e have "deploy_to_netlify w =
      (header @ pre @ [Print (py ''Error: '' @ e) newline], Returned False)"
    by (simp add: deploy_to_netlify_def try_body_def header_def)
  with p show ?thesis using that by blast
qed

lemma deploy_loop_raises:
  assumes "spawned w" and "stdin_ok w" and "\<not> loop_ok w"
  obtains pre e where "prefix pre (concat (map line_events (stdout_lines w)))"
    and "deploy_to_netlify w =
           (header @ two_blank_lines @ pre @ [Print (py ''Error: '' @ e) newline],
            Returned False)"
proof -
  let ?tr = "[Print (py ''Deploying to Netlify...'') newline] @ [Chdir frontend_dir]"
  from assms(3) have "\<not> prints_ok w 0 (stdout_lines w)" by (simp add: loop_ok_def)
  from read_output_raises [OF this, of "(?tr @ [Popen cmd]) @ two_blank_lines"]
  obtain pre e where r: "read_output w 0 (stdout_lines w) ((?tr @ [Popen cmd]) @ two_blank_lines) =
        (((?tr @ [Popen cmd]) @ two_blank_lines) @ pre, Some e)"
    and p: "prefix pre (concat (map line_events (stdout_lines w)))"
    by blast
  from assms(1) have "chdir_error w = None" "popen_error w = None"
    by (simp_all add: spawned_def)
  with r have "deploy_to_netlify w =
      (header @ two_blank_lines @ pre @ [Print (py ''Error: '' @ e) newline], Returned False)"
    by (simp add: deploy_to_netlify_def try_body_def header_def send_inputs_ok [OF assms(2)])
  with p show ?thesis using that by blast
qed

lemma deploy_result:
  "snd (deploy_to_netlify w) =
     (case chdir_error w of
        Some e \<Rightarrow> Raised e
      | None \<Rightarrow>
          (if popen_error w = None \<and> stdin_ok w \<and> loop_ok w then verdict w
           else Returned False))"
proof (cases "chdir_error w")
  case (Some e)
  then show ?thesis by (simp add: deploy_to_netlify_def)
next
  case None
  show ?thesis
  proof (cases "popen_error w")
    case (Some e)
    with None show ?thesis by (simp add: deploy_to_netlify_def try_body_def)
  next
    case pn: None
    from None pn have sp: "spawned w" by (simp add: spawned_def)
    show ?thesis
    proof (cases "stdin_ok w")
      case False
      from deploy_stdin_raises [OF sp False]
      obtain pre e where "deploy_to_netlify w =
          (header @ pre @ [Print (py ''Error: '' @ e) newline], Returned False)"
        by blast
      with None pn False show ?thesis by simp
    next
      case ok: True
      show ?thesis
      proof (cases "loop_ok w")
        case True
        with None pn ok sp show ?thesis by (simp add: deploy_closed)
      next
        case False
        from deploy_loop_raises [OF sp ok False]
        obtain pre e where "deploy_to_netlify w =
            (header @ two_blank_lines @ pre @ [Print (py ''Error: '' @ e) newline],
             Returned False)"
          by blast
        with None pn ok False show ?thesis by simp
      qed
    qed
  qed
qed

lemma main_result:
  "snd (main w) =
     (case snd (deploy_to_netlify w) of
        Returned b \<Rightarrow> Exit (if b then 0 else 1)
      | Raised e \<Rightarrow> Traceback e
      | Blocked \<Rightarrow> Hang)"
  by (cases "deploy_to_netlify w") (simp add: main_def split: call_result.splits)

lemma main_of_deploy:
  "snd (deploy_to_netlify w) = Returned b \<Longrightarrow> snd (main w) = Exit (if b then 0 else 1)"
  by (simp add: main_result)

lemma stdin_ok_lines: "stdin_ok (w\<lparr>stdout_lines := ls\<rparr>) = stdin_ok w"
  by (simp add: stdin_ok_def)

lemma spawned_lines: "spawned (w\<lparr>stdout_lines := ls\<rparr>) = spawned w"
  by (simp add: spawned_def)

subsection \<open>Selections from the trace of the output loop\<close>

lemma line_events_fun:
  "line_events =
     (\<lambda>l. [StdoutLine l, Print l (py '''')] @
          (if is_url_line l then [Print (found_url l) newline] else []))"
  by (rule ext) (simp add: line_events_def)

lemma writes_of_lines: "filter is_stdin_write (concat (map line_events ls)) = []"
  by (induction ls) (simp_all add: line_events_def)

lemma echoes_of_lines:
  "filter is_echo (concat (map line_events ls)) = map (\<lambda>l. Print l (py '''')) ls"
  by (induction ls) (simp_all add: line_events_def newline_def py_def)

lemma echoes_of_trailer: "filter is_echo (trailer w) = []"
  by (simp add: trailer_def newline_def split: option.splits)

lemma confirmations_of_lines:
  "filter is_confirmation (concat (map line_events ls)) =
     map (\<lambda>l. Print (found_url l) newline) (filter is_url_line ls)"
  by (induction ls) (simp_all add: line_events_def found_url_def newline_def py_def)

lemma confirmations_of_header: "filter is_confirmation header = []"
  by (simp add: header_def found_prefix_def newline_def py_def)

lemma confirmations_of_blank_lines: "filter is_confirmation two_blank_lines = []"
  by (simp add: two_blank_lines_def)

lemma error_text_is_no_confirmation: "\<not> prefix found_prefix (py ''Error: '' @ e)"
  by (simp add: found_prefix_def newline_def py_def)

lemma confirmation_is_no_error: "\<not> is_confirmation (Print (py ''Error: '' @ e) newline)"
  by (simp add: error_text_is_no_confirmation)

lemma confirmations_of_trailer: "filter is_confirmation (trailer w) = []"
  by (simp add: trailer_def error_text_is_no_confirmation split: option.splits)


lemma confirmations_of_clean_run:
  assumes "spawned w" and "stdin_ok w" and "loop_ok w"
  shows "filter is_confirmation (fst (deploy_to_netlify w)) =
           map (\<lambda>l. Print (found_url l) newline) (filter is_url_line (stdout_lines w))"
  using assms
  by (simp add: deploy_closed confirmations_of_lines confirmations_of_header
        confirmations_of_blank_lines confirmations_of_trailer)


lemma child_events_of_lines:
  "filter is_child_event (concat (map line_events ls)) = map StdoutLine ls"
  by (induction ls) (simp_all add: line_events_def)

lemma child_events_of_prefix:
  assumes "prefix pre two_blank_lines"
  shows "filter is_child_event pre = pre"
proof -
  from assms have "set pre \<subseteq> set two_blank_lines" by (rule set_mono_prefix)
  then have "\<forall>x\<in>set pre. is_child_event x" by (auto simp add: two_blank_lines_def)
  then show ?thesis by simp
qed

lemma child_events_of_run:
  "prefix (filter is_child_event (fst (deploy_to_netlify w))) (linear_order w)"
proof (cases "spawned w")
  case False
  then have "filter is_child_event (fst (deploy_to_netlify w)) = []"
    by (auto simp add: spawned_def deploy_to_netlify_def try_body_def Let_def
          split: option.splits)
  then show ?thesis by simp
next
  case sp: True
  show ?thesis
  proof (cases "stdin_ok w")
    case False
    from deploy_stdin_raises [OF sp False]
    obtain pre e where p: "prefix pre two_blank_lines"
      and d: "deploy_to_netlify w =
           (header @ pre @ [Print (py ''Error: '' @ e) newline], Returned False)"
      by blast
    from p have "prefix pre (two_blank_lines @ map StdoutLine (stdout_lines w) @ [Wait])"
      by (rule prefix_prefix)
    then show ?thesis
      using d child_events_of_prefix [OF p]
      by (simp add: linear_order_def header_def two_blank_lines_def)
  next
    case ok: True
    show ?thesis
    proof (cases "loop_ok w")
      case True
      have "filter is_child_event (trailer w) = [] \<or> filter is_child_event (trailer w) = [Wait]"
        by (simp add: trailer_def split: option.splits)
      then show ?thesis
        using sp ok True
        by (auto simp add: deploy_closed child_events_of_lines linear_order_def header_def
              two_blank_lines_def)
    next
      case False
      from deploy_loop_raises [OF sp ok False]
      obtain pre e where p: "prefix pre (concat (map line_events (stdout_lines w)))"
        and d: "deploy_to_netlify w =
           (header @ two_blank_lines @ pre @ [Print (py ''Error: '' @ e) newline],
            Returned False)"
        by blast
      from p have "prefix (filter is_child_event pre)
          (filter is_child_event (concat (map line_events (stdout_lines w))))"
        by (rule filter_mono_prefix)
      then have "prefix (filter is_child_event pre) (map StdoutLine (stdout_lines w) @ [Wait])"
        by (simp add: child_events_of_lines prefix_prefix)
      then show ?thesis
        using d by (simp add: linear_order_def header_def two_blank_lines_def)
    qed
  qed
qed

lemma writes_of_run:
  assumes "spawned w" and "stdin_ok w"
  shows "filter is_stdin_write (fst (deploy_to_netlify w)) =
           [StdinWrite newline, StdinWrite newline]"
proof (cases "loop_ok w")
  case True
  with assms show ?thesis
    by (simp add: deploy_closed writes_of_lines header_def two_blank_lines_def trailer_def
          split: option.splits)
next
  case False
  from deploy_loop_raises [OF assms False]
  obtain pre e where p: "prefix pre (concat (map line_events (stdout_lines w)))"
    and d: "deploy_to_netlify w =
       (header @ two_blank_lines @ pre @ [Print (py ''Error: '' @ e) newline], Returned False)"
    by blast
  from p have "prefix (filter is_stdin_write pre)
      (filter is_stdin_write (concat (map line_events (stdout_lines w))))"
    by (rule filter_mono_prefix)
  then have "filter is_stdin_write pre = []" by (simp add: writes_of_lines)
  with d show ?thesis by (simp add: header_def two_blank_lines_def)
qed

subsection \<open>The test of the loop and the words of the specification\<close>








subsection \<open>What \<open>strip\<close> keeps of a line\<close>





subsection \<open>The sample lines\<close>

lemma https_line_is_url: "is_url_line https_line"
  by code_simp

lemma http_line_is_not_url: "\<not> is_url_line http_line"
  by code_simp

lemma progress_line_is_not_url: "\<not> is_url_line progress_line"
  by code_simp








lemma calm_world_loop_ok: "loop_ok calm_world"
  by code_simp

lemma quiet_world_loop_ok: "loop_ok quiet_world"
  by code_simp

lemma failing_world_loop_ok: "loop_ok failing_world"
  by code_simp


lemma plain_world_loop_ok: "loop_ok plain_world"
  by code_simp

lemma encode_error_world_loop_raises: "\<not> loop_ok encode_error_world"
  by code_simp

subsection \<open>What precedes an effect on the child\<close>

lemma prefix_snoc_split:
  assumes "prefix (A @ [x]) (P @ R)" and "x \<notin> set P"
  obtains B where "A = P @ B" and "set B \<subseteq> set R"
proof -
  from assms(1) consider "prefix (A @ [x]) P" | us where "A @ [x] = P @ us" "prefix us R"
    unfolding prefix_append by blast
  then show ?thesis
  proof cases
    case 1
    then have "set (A @ [x]) \<subseteq> set P" by (rule set_mono_prefix)
    with assms(2) show ?thesis by simp
  next
    case 2
    show ?thesis
    proof (cases us rule: rev_cases)
      case Nil
      with 2 have "x \<in> set P" by (metis append_Nil2 in_set_conv_decomp)
      with assms(2) show ?thesis by simp
    next
      case (snoc B y)
      with 2 have "A = P @ B" by simp
      moreover from 2 snoc have "set B \<subseteq> set R"
        using set_mono_prefix by fastforce
      ultimately show ?thesis using that by blast
    qed
  qed
qed

lemma child_events_before:
  assumes "fst (deploy_to_netlify w) = xs @ x # ys" and "is_child_event x"
  shows "prefix (filter is_child_event xs @ [x]) (linear_order w)"
proof -
  have "prefix (filter is_child_event xs @ [x]) (filter is_child_event (xs @ x # ys))"
    using assms(2) by simp
  also have "prefix (filter is_child_event (xs @ x # ys)) (linear_order w)"
    using child_events_of_run [of w] assms(1) by simp
  finally show ?thesis .
qed

lemma spawn_before_write:
  assumes "fst (deploy_to_netlify w) = xs @ StdinWrite s # ys"
  shows "Popen cmd \<in> set xs"
proof -
  have "prefix (filter is_child_event xs @ [StdinWrite s])
          ([Popen cmd] @ (two_blank_lines @ map StdoutLine (stdout_lines w) @ [Wait]))"
    using child_events_before [OF assms] by (simp add: linear_order_def two_blank_lines_def)
  then obtain B where "filter is_child_event xs = [Popen cmd] @ B"
    by (rule prefix_snoc_split) simp
  then have "Popen cmd \<in> set (filter is_child_event xs)" by simp
  then show ?thesis by simp
qed

lemma spawn_and_writes_before_read:
  assumes "fst (deploy_to_netlify w) = xs @ StdoutLine l # ys"
  shows "Popen cmd \<in> set xs \<and>
         filter is_stdin_write xs = [StdinWrite newline, StdinWrite newline]"
proof -
  have "prefix (filter is_child_event xs @ [StdoutLine l])
          (([Popen cmd] @ two_blank_lines) @ (map StdoutLine (stdout_lines w) @ [Wait]))"
    using child_events_before [OF assms] by (simp add: linear_order_def two_blank_lines_def)
  then obtain B where B: "filter is_child_event xs = ([Popen cmd] @ two_blank_lines) @ B"
    and R: "set B \<subseteq> set (map StdoutLine (stdout_lines w) @ [Wait])"
    by (rule prefix_snoc_split) (simp add: two_blank_lines_def)
  from B have "Popen cmd \<in> set (filter is_child_event xs)" by simp
  then have 1: "Popen cmd \<in> set xs" by simp
  have "filter is_stdin_write xs = filter is_stdin_write (filter is_child_event xs)"
  proof -
    have "(is_child_event e \<and> is_stdin_write e) = is_stdin_write e" for e
      by (cases e) simp_all
    then show ?thesis by simp
  qed
  also have "\<dots> = [StdinWrite newline, StdinWrite newline] @ filter is_stdin_write B"
    by (simp add: B two_blank_lines_def)
  also have "filter is_stdin_write B = []"
    using R by (auto simp add: filter_empty_conv)
  finally show ?thesis using 1 by simp
qed

subsection \<open>The run that the console interrupts\<close>

lemma encode_error_run:
  "deploy_to_netlify encode_error_world =
     (header @ two_blank_lines @
      [StdoutLine progress_line, Print progress_line (py ''''),
       StdoutLine https_line, Print https_line (py '''')] @
      [Print (py ''Error: '' @ py ''charmap codec cannot encode character'') newline],
      Returned False)"
proof -
  have "read_output encode_error_world 0 (stdout_lines encode_error_world) tr =
      (tr @ [StdoutLine progress_line, Print progress_line (py ''''),
             StdoutLine https_line, Print https_line (py '''')],
       Some (py ''charmap codec cannot encode character''))" for tr
    using https_line_is_url progress_line_is_not_url
    by (simp add: encode_error_world_def calm_world_def Let_def)
  moreover have "stdin_ok encode_error_world"
    by (simp add: encode_error_world_def calm_world_def stdin_ok_def)
  moreover have "chdir_error encode_error_world = None" "popen_error encode_error_world = None"
    by (simp_all add: encode_error_world_def calm_world_def)
  ultimately show ?thesis
    by (simp add: deploy_to_netlify_def try_body_def send_inputs_ok header_def)
qed

lemma py_empty: "py '''' = []"
  by (simp add: py_def)

lemma encode_error_confirmations:
  "filter is_confirmation (fst (deploy_to_netlify encode_error_world)) = []"
  by (simp add: encode_error_run confirmations_of_header confirmations_of_blank_lines
        error_text_is_no_confirmation newline_def py_empty)

section \<open>The exit code\<close>

text \<open>
  Claim C1, as amended. In every run in which the child is spawned, no write, flush,
  read or \<open>print\<close> of the \<open>try\<close> block raises, the output reaches its end and the child
  ends, the program exits with 0 if and only if the child's code is 0, and with 1 for
  every other code of the child.
\<close>

theorem exit_code_follows_child:
  assumes "spawned w" and "stdin_ok w" and "loop_ok w" and "stdout_error w = None"
    and "stdout_eof w" and "returncode w = Some rc"
  shows "(snd (main w) = Exit 0 \<longleftrightarrow> rc = 0) \<and> (rc \<noteq> 0 \<longrightarrow> snd (main w) = Exit 1)"
proof -
  have "snd (deploy_to_netlify w) = Returned (rc = 0)"
    using assms by (simp add: deploy_closed verdict_def)
  then have "snd (main w) = Exit (if rc = 0 then 0 else 1)"
    by (rule main_of_deploy)
  then show ?thesis by simp
qed

theorem exit_code_follows_child_witness:
  "spawned failing_world \<and> stdin_ok failing_world \<and> loop_ok failing_world \<and>
   stdout_error failing_world = None \<and> stdout_eof failing_world \<and>
   returncode failing_world = Some 2 \<and> snd (main failing_world) = Exit 1 \<and>
   snd (main calm_world) = Exit 0"
proof -
  have f: "spawned failing_world" "stdin_ok failing_world"
    by (simp_all add: failing_world_def calm_world_def spawned_def stdin_ok_def)
  have g: "stdout_error failing_world = None" "stdout_eof failing_world"
    "returncode failing_world = Some 2"
    by (simp_all add: failing_world_def calm_world_def)
  have c: "spawned calm_world" "stdin_ok calm_world"
    by (simp_all add: calm_world_def spawned_def stdin_ok_def)
  have d: "stdout_error calm_world = None" "stdout_eof calm_world"
    "returncode calm_world = Some 0"
    by (simp_all add: calm_world_def)
  show ?thesis
    using f g failing_world_loop_ok
      exit_code_follows_child [OF f failing_world_loop_ok g]
      exit_code_follows_child [OF c calm_world_loop_ok d]
    by simp
qed

text \<open>
  Claim C1 as it is written fails: when the output cannot be decoded the child is
  spawned and ends with code 0, and the program exits with 1.
\<close>

theorem exit_code_decode_error_counterexample:
  "spawned decode_error_world \<and> returncode decode_error_world = Some 0 \<and>
   snd (main decode_error_world) = Exit 1"
  by (simp add: decode_error_world_def calm_world_def spawned_def main_result deploy_result
        verdict_def)

section \<open>Exceptions\<close>

text \<open>
  Claim C2. If starting the deploy tool raises, the trigger catches the exception,
  prints a message that starts with \<open>Error:\<close>, returns failure, and the program exits
  with code 1.
\<close>

theorem spawn_failure_is_caught:
  assumes "chdir_error w = None" and "popen_error w = Some e"
  shows "deploy_to_netlify w =
           ([Print (py ''Deploying to Netlify...'') newline, Chdir frontend_dir,
             Print (py ''Error: '' @ e) newline], Returned False) \<and>
         snd (main w) = Exit 1"
  using assms by (simp add: main_def deploy_to_netlify_def try_body_def)

theorem spawn_failure_is_caught_witness:
  "chdir_error no_tool_world = None \<and>
   popen_error no_tool_world = Some (py ''[WinError 2] file not found'') \<and>
   deploy_to_netlify no_tool_world =
     ([Print (py ''Deploying to Netlify...'') newline, Chdir frontend_dir,
       Print (py ''Error: [WinError 2] file not found'') newline], Returned False) \<and>
   snd (main no_tool_world) = Exit 1"
proof -
  have h: "chdir_error no_tool_world = None"
    "popen_error no_tool_world = Some (py ''[WinError 2] file not found'')"
    by (simp_all add: no_tool_world_def calm_world_def)
  have "py ''Error: '' @ py ''[WinError 2] file not found'' =
      py ''Error: [WinError 2] file not found''"
    by (simp add: py_def)
  then show ?thesis using h spawn_failure_is_caught [OF h] by simp
qed

text \<open>
  Claim C8. If the change of the working directory raises, the trigger does not catch
  the exception: nothing is printed after the opening message, in particular no
  \<open>Error:\<close> line, and the program ends with the exception, not with the exit of the
  failure path.
\<close>

theorem chdir_failure_is_not_caught:
  assumes "chdir_error w = Some e"
  shows "deploy_to_netlify w = ([Print (py ''Deploying to Netlify...'') newline], Raised e) \<and>
         main w = ([Print (py ''Deploying to Netlify...'') newline], Traceback e)"
  using assms by (simp add: main_def deploy_to_netlify_def)

theorem chdir_failure_is_not_caught_witness:
  "chdir_error no_dir_world = Some (py ''[WinError 3] path not found'') \<and>
   main no_dir_world =
     ([Print (py ''Deploying to Netlify...'') newline],
      Traceback (py ''[WinError 3] path not found''))"
proof -
  have h: "chdir_error no_dir_world = Some (py ''[WinError 3] path not found'')"
    by (simp add: no_dir_world_def calm_world_def)
  show ?thesis using h chdir_failure_is_not_caught [OF h] by simp
qed



section \<open>The inputs of the child\<close>

text \<open>
  Claim C3, as amended. In every run in which the child is spawned and no write or flush
  of its input raises, exactly two blank lines (the empty string followed by a newline,
  twice) are written to its input, whatever the child writes to its output.
\<close>

theorem two_blank_lines_written:
  assumes "spawned w" and "stdin_ok w"
  shows "filter is_stdin_write (fst (deploy_to_netlify (w\<lparr>stdout_lines := ls\<rparr>))) =
           [StdinWrite (py '''' @ newline), StdinWrite (py '''' @ newline)]"
proof -
  have "spawned (w\<lparr>stdout_lines := ls\<rparr>)" "stdin_ok (w\<lparr>stdout_lines := ls\<rparr>)"
    using assms by (simp_all add: spawned_lines stdin_ok_lines)
  then show ?thesis by (simp add: writes_of_run py_def)
qed

theorem two_blank_lines_written_witness:
  "spawned calm_world \<and> stdin_ok calm_world \<and>
   filter is_stdin_write (fst (deploy_to_netlify (calm_world\<lparr>stdout_lines := [https_line]\<rparr>))) =
     [StdinWrite newline, StdinWrite newline]"
proof -
  have h: "spawned calm_world" "stdin_ok calm_world"
    by (simp_all add: calm_world_def spawned_def stdin_ok_def)
  show ?thesis
    using h two_blank_lines_written [OF h, where ls = "[https_line]"] by (simp add: py_def)
qed

text \<open>
  Claim C3 as it is written fails: when the second write finds the pipe closed, the child
  is spawned and a single blank line is written.
\<close>

theorem one_blank_line_counterexample:
  "spawned broken_pipe_world \<and>
   filter is_stdin_write (fst (deploy_to_netlify broken_pipe_world)) = [StdinWrite newline]"
  by (simp add: broken_pipe_world_def calm_world_def spawned_def deploy_to_netlify_def
        try_body_def inputs_def Let_def py_def)

section \<open>The confirmation\<close>







text \<open>
  Claim C10, as amended. In a run in which the child is spawned and no write, flush or
  \<open>print\<close> of the loop raises, every line of the output is echoed, whether it matches
  or not; the confirmation of a matching line comes right after the echo of that line;
  and there is one confirmation for each matching line, not only for the first.
\<close>

theorem every_line_echoed_then_confirmed:
  assumes "spawned w" and "stdin_ok w" and "loop_ok w"
  shows "fst (deploy_to_netlify w) =
           header @ two_blank_lines @
           concat (map (\<lambda>l. [StdoutLine l, Print l (py '''')] @
                          (if is_url_line l then [Print (found_url l) newline] else []))
                     (stdout_lines w)) @
           trailer w \<and>
         filter is_echo (fst (deploy_to_netlify w)) =
           map (\<lambda>l. Print l (py '''')) (stdout_lines w) \<and>
         length (filter is_confirmation (fst (deploy_to_netlify w))) =
           length (filter is_url_line (stdout_lines w))"
proof (intro conjI)
  show "fst (deploy_to_netlify w) =
           header @ two_blank_lines @
           concat (map (\<lambda>l. [StdoutLine l, Print l (py '''')] @
                          (if is_url_line l then [Print (found_url l) newline] else []))
                     (stdout_lines w)) @
           trailer w"
    using assms by (simp only: deploy_closed fst_conv line_events_fun)
  show "filter is_echo (fst (deploy_to_netlify w)) =
      map (\<lambda>l. Print l (py '''')) (stdout_lines w)"
    using assms
    by (simp add: deploy_closed echoes_of_lines echoes_of_trailer header_def two_blank_lines_def
          newline_def)
  show "length (filter is_confirmation (fst (deploy_to_netlify w))) =
           length (filter is_url_line (stdout_lines w))"
    using assms by (simp add: confirmations_of_clean_run)
qed

theorem every_line_echoed_then_confirmed_witness:
  "spawned calm_world \<and> stdin_ok calm_world \<and> loop_ok calm_world \<and>
   filter is_echo (fst (deploy_to_netlify calm_world)) =
     [Print progress_line (py ''''), Print https_line (py ''''), Print http_line (py ''''),
      Print https_line (py '''')] \<and>
   length (filter is_confirmation (fst (deploy_to_netlify calm_world))) = 2"
proof -
  have h: "spawned calm_world" "stdin_ok calm_world"
    by (simp_all add: calm_world_def spawned_def stdin_ok_def)
  have l: "stdout_lines calm_world = [progress_line, https_line, http_line, https_line]"
    by (simp add: calm_world_def)
  show ?thesis
    using h l calm_world_loop_ok
      every_line_echoed_then_confirmed [OF h calm_world_loop_ok, THEN conjunct2]
      https_line_is_url http_line_is_not_url progress_line_is_not_url
    by simp
qed

text \<open>
  Claim C10 as it is written fails: when the first confirmation raises, the handler ends
  the loop; of four lines, two of them matching, two are echoed and none is confirmed.
\<close>

theorem loop_cut_counterexample:
  "spawned encode_error_world \<and> stdin_ok encode_error_world \<and>
   stdout_lines encode_error_world = [progress_line, https_line, http_line, https_line] \<and>
   is_url_line https_line \<and>
   filter is_echo (fst (deploy_to_netlify encode_error_world)) =
     [Print progress_line (py ''''), Print https_line (py '''')] \<and>
   length (filter is_confirmation (fst (deploy_to_netlify encode_error_world))) = 0"
proof -
  have h: "spawned encode_error_world" "stdin_ok encode_error_world"
    by (simp_all add: encode_error_world_def calm_world_def spawned_def stdin_ok_def)
  have l: "stdout_lines encode_error_world = [progress_line, https_line, http_line, https_line]"
    by (simp add: encode_error_world_def calm_world_def)
  have e: "filter is_echo (fst (deploy_to_netlify encode_error_world)) =
     [Print progress_line (py ''''), Print https_line (py '''')]"
    by (simp add: encode_error_run header_def two_blank_lines_def newline_def py_def)
  have "filter is_confirmation (fst (deploy_to_netlify encode_error_world)) = []"
    by (rule encode_error_confirmations)
  then have "length (filter is_confirmation (fst (deploy_to_netlify encode_error_world))) = 0"
    by simp
  with h l e https_line_is_url show ?thesis by blast
qed

section \<open>Control flow\<close>

text \<open>
  Claim C6, as amended. Two runs in which the child is spawned, no write, flush, read or
  \<open>print\<close> of the \<open>try\<close> block raises, the output reaches its end and the child ends
  with the same code, return the same value and exit with the same status, however the
  lines of their outputs differ and whether or not a line matches.
\<close>

theorem output_lines_do_not_change_result:
  assumes "spawned w1" and "stdin_ok w1" and "loop_ok w1" and "stdout_error w1 = None"
    and "stdout_eof w1" and "returncode w1 = Some rc"
    and "spawned w2" and "stdin_ok w2" and "loop_ok w2" and "stdout_error w2 = None"
    and "stdout_eof w2" and "returncode w2 = Some rc"
  shows "snd (deploy_to_netlify w1) = snd (deploy_to_netlify w2) \<and>
         snd (deploy_to_netlify w1) = Returned (rc = 0) \<and>
         snd (main w1) = snd (main w2)"
proof -
  have 1: "snd (deploy_to_netlify w1) = Returned (rc = 0)"
    using assms(1-6) by (simp add: deploy_closed verdict_def)
  have 2: "snd (deploy_to_netlify w2) = Returned (rc = 0)"
    using assms(7-12) by (simp add: deploy_closed verdict_def)
  from 1 2 show ?thesis by (simp add: main_result)
qed

theorem output_lines_do_not_change_result_witness:
  "spawned calm_world \<and> stdin_ok calm_world \<and> loop_ok calm_world \<and>
   stdout_error calm_world = None \<and> stdout_eof calm_world \<and> returncode calm_world = Some 0 \<and>
   spawned quiet_world \<and> stdin_ok quiet_world \<and> loop_ok quiet_world \<and>
   stdout_error quiet_world = None \<and> stdout_eof quiet_world \<and> returncode quiet_world = Some 0 \<and>
   stdout_lines calm_world \<noteq> stdout_lines quiet_world \<and>
   snd (deploy_to_netlify calm_world) = snd (deploy_to_netlify quiet_world) \<and>
   snd (main calm_world) = snd (main quiet_world)"
proof -
  have c: "spawned calm_world" "stdin_ok calm_world"
    by (simp_all add: calm_world_def spawned_def stdin_ok_def)
  have d: "stdout_error calm_world = None" "stdout_eof calm_world"
    "returncode calm_world = Some 0"
    by (simp_all add: calm_world_def)
  have q: "spawned quiet_world" "stdin_ok quiet_world"
    by (simp_all add: quiet_world_def calm_world_def spawned_def stdin_ok_def)
  have r: "stdout_error quiet_world = None" "stdout_eof quiet_world"
    "returncode quiet_world = Some 0"
    by (simp_all add: quiet_world_def calm_world_def)
  have n: "stdout_lines calm_world \<noteq> stdout_lines quiet_world"
    by (simp add: quiet_world_def calm_world_def)
  show ?thesis
    using c d q r n calm_world_loop_ok quiet_world_loop_ok
      output_lines_do_not_change_result
        [OF c calm_world_loop_ok d q quiet_world_loop_ok r]
    by blast
qed

text \<open>
  Claim C6 as it is written fails: on a console that cannot encode the check mark, two
  runs that differ only in the lines of the output, the child ending with code 0 in
  both, return failure when a line matches and success when none does.
\<close>

theorem matching_line_changes_result_counterexample:
  "plain_world = encode_error_world\<lparr>stdout_lines := [progress_line, http_line]\<rparr> \<and>
   returncode encode_error_world = Some 0 \<and> returncode plain_world = Some 0 \<and>
   snd (deploy_to_netlify encode_error_world) = Returned False \<and>
   snd (deploy_to_netlify plain_world) = Returned True"
proof -
  have p: "spawned plain_world" "stdin_ok plain_world"
    by (simp_all add: plain_world_def encode_error_world_def calm_world_def spawned_def
          stdin_ok_def)
  have "snd (deploy_to_netlify plain_world) = Returned True"
    using p plain_world_loop_ok
    by (simp add: deploy_closed verdict_def plain_world_def encode_error_world_def
          calm_world_def)
  moreover have "snd (deploy_to_netlify encode_error_world) = Returned False"
    by (simp add: encode_error_run)
  moreover have "returncode encode_error_world = Some 0" "returncode plain_world = Some 0"
    by (simp_all add: plain_world_def encode_error_world_def calm_world_def)
  ultimately show ?thesis by (simp add: plain_world_def)
qed

text \<open>
  Claim C7. In every run the effects on the child are an initial part of one sequence:
  spawn, write and flush twice, read the lines, wait. The child is spawned before
  anything is written to it; it is spawned and both inputs are written before a line of
  its output is read; a run that nothing interrupts goes through the whole sequence,
  ends with the wait and only then maps the code of the child to the result; and success
  is returned only after the whole sequence.
\<close>

theorem single_linear_order:
  "prefix (filter is_child_event (fst (deploy_to_netlify w))) (linear_order w) \<and>
   (fst (deploy_to_netlify w) = xs @ StdinWrite s # ys \<longrightarrow> Popen cmd \<in> set xs) \<and>
   (fst (deploy_to_netlify w) = xs' @ StdoutLine l # ys' \<longrightarrow>
      Popen cmd \<in> set xs' \<and>
      filter is_stdin_write xs' = [StdinWrite newline, StdinWrite newline]) \<and>
   (spawned w \<and> stdin_ok w \<and> loop_ok w \<and> stdout_error w = None \<and> stdout_eof w \<and>
    returncode w = Some rc \<longrightarrow>
      filter is_child_event (fst (deploy_to_netlify w)) = linear_order w \<and>
      last (fst (deploy_to_netlify w)) = Wait \<and>
      snd (deploy_to_netlify w) = Returned (rc = 0)) \<and>
   (snd (deploy_to_netlify w) = Returned True \<longrightarrow>
      filter is_child_event (fst (deploy_to_netlify w)) = linear_order w)"
proof -
  have full: "filter is_child_event (fst (deploy_to_netlify w)) = linear_order w \<and>
      last (fst (deploy_to_netlify w)) = Wait \<and>
      snd (deploy_to_netlify w) = Returned (rc = 0)"
    if "spawned w" "stdin_ok w" "loop_ok w" "stdout_error w = None" "stdout_eof w"
      "returncode w = Some rc" for rc
    using that
    by (simp add: deploy_closed child_events_of_lines linear_order_def header_def
          two_blank_lines_def trailer_def verdict_def)
  have "\<exists>rc. spawned w \<and> stdin_ok w \<and> loop_ok w \<and> stdout_error w = None \<and> stdout_eof w \<and>
      returncode w = Some rc"
    if "snd (deploy_to_netlify w) = Returned True"
    using that
    by (auto simp add: deploy_result spawned_def verdict_def split: option.splits if_splits)
  with full have "filter is_child_event (fst (deploy_to_netlify w)) = linear_order w"
    if "snd (deploy_to_netlify w) = Returned True"
    using that by blast
  with full child_events_of_run spawn_before_write spawn_and_writes_before_read
  show ?thesis by blast
qed

theorem single_linear_order_witness:
  "fst (deploy_to_netlify quiet_world) =
     [Print (py ''Deploying to Netlify...'') newline, Chdir frontend_dir, Popen cmd] @
     StdinWrite newline #
     [StdinFlush, StdinWrite newline, StdinFlush, StdoutLine progress_line,
      Print progress_line (py ''''), Wait] \<and>
   fst (deploy_to_netlify quiet_world) =
     [Print (py ''Deploying to Netlify...'') newline, Chdir frontend_dir, Popen cmd,
      StdinWrite newline, StdinFlush, StdinWrite newline, StdinFlush] @
     StdoutLine progress_line # [Print progress_line (py ''''), Wait] \<and>
   spawned quiet_world \<and> stdin_ok quiet_world \<and> loop_ok quiet_world \<and>
   stdout_error quiet_world = None \<and> stdout_eof quiet_world \<and>
   returncode quiet_world = Some 0 \<and>
   snd (deploy_to_netlify quiet_world) = Returned True \<and>
   filter is_child_event (fst (deploy_to_netlify quiet_world)) = linear_order quiet_world \<and>
   last (fst (deploy_to_netlify quiet_world)) = Wait"
proof -
  have h: "spawned quiet_world" "stdin_ok quiet_world"
    by (simp_all add: quiet_world_def calm_world_def spawned_def stdin_ok_def)
  have g: "stdout_error quiet_world = None" "stdout_eof quiet_world"
    "returncode quiet_world = Some 0"
    by (simp_all add: quiet_world_def calm_world_def)
  have l: "stdout_lines quiet_world = [progress_line]"
    by (simp add: quiet_world_def)
  have t: "fst (deploy_to_netlify quiet_world) =
     [Print (py ''Deploying to Netlify...'') newline, Chdir frontend_dir, Popen cmd,
      StdinWrite newline, StdinFlush, StdinWrite newline, StdinFlush,
      StdoutLine progress_line, Print progress_line (py ''''), Wait]"
    using h g l quiet_world_loop_ok progress_line_is_not_url
    by (simp add: deploy_closed header_def two_blank_lines_def line_events_def trailer_def)
  have r: "snd (deploy_to_netlify quiet_world) = Returned True"
    using h g quiet_world_loop_ok by (simp add: deploy_closed verdict_def)
  have "filter is_child_event (fst (deploy_to_netlify quiet_world)) = linear_order quiet_world \<and>
      last (fst (deploy_to_netlify quiet_world)) = Wait"
    using h g quiet_world_loop_ok
      single_linear_order
        [where w = quiet_world and rc = 0 and s = newline and l = progress_line
           and xs = "[Print (py ''Deploying to Netlify...'') newline, Chdir frontend_dir,
                      Popen cmd]"
           and ys = "[StdinFlush, StdinWrite newline, StdinFlush, StdoutLine progress_line,
                      Print progress_line (py ''''), Wait]"
           and xs' = "[Print (py ''Deploying to Netlify...'') newline, Chdir frontend_dir,
                       Popen cmd, StdinWrite newline, StdinFlush, StdinWrite newline,
                       StdinFlush]"
           and ys' = "[Print progress_line (py ''''), Wait]"]
    by blast
  with h g t r quiet_world_loop_ok show ?thesis by simp
qed

end
